theory Spec2Isabelle
  imports Complex_Main
begin

section \<open>The job scraper wrapper: \<^verbatim>\<open>backend/src/python/job_scraper.py\<close>\<close>

text \<open>
  The script parses its command line, calls the external \<^verbatim>\<open>scrape_jobs\<close> function, turns
  every row of the returned table into a dictionary and dumps the list of dictionaries as
  JSON into the output file. This theory embeds \<^verbatim>\<open>main()\<close> from the point where
  \<^verbatim>\<open>parse_args\<close> has returned; the two import guards of the script and the exit of
  \<^verbatim>\<open>argparse\<close> on a malformed command line come before that point.

  Conventions of the embedding:
  \<^item> a Python \<^verbatim>\<open>str\<close> is a \<^typ>\<open>string\<close>; every \<^typ>\<open>char\<close> stands for one character of
    the Python string (code points below 256), so \<^const>\<open>length\<close> and \<^const>\<open>take\<close> count
    what Python's \<^verbatim>\<open>len\<close> and slicing count;
  \<^item> a table cell is a value of the datatype \<open>pyval\<close> below: the scalars \<^verbatim>\<open>None\<close>,
    \<^verbatim>\<open>str\<close>, \<^verbatim>\<open>bool\<close>, \<^verbatim>\<open>int\<close>, \<^verbatim>\<open>float\<close> (with \<^verbatim>\<open>nan\<close> and the infinities) and
    \<^verbatim>\<open>pandas.NA\<close>;
  \<^item> an exception that \<^verbatim>\<open>except Exception\<close> catches is a value of \<open>py_exception\<close>, and a
    computation that may raise returns \<open>py_exception + 'a\<close>; \<^verbatim>\<open>KeyboardInterrupt\<close> and
    \<^verbatim>\<open>SystemExit\<close>, which that clause lets through, are not values of the type;
  \<^item> what the script only calls (the scraper, the clock, the decimal rendering and parsing
    of floats) is a field of the record \<open>env\<close>;
  \<^item> the file system is a map from paths to file contents, and \<^verbatim>\<open>open(path, 'w')\<close>
    followed by a write replaces the content at that path. Failures of the operating
    system while writing, and the messages printed on the error stream, are outside the
    embedding.
\<close>

subsection \<open>Python values\<close>

datatype pyfloat = Finite rat | PosInf | NegInf | NaN

datatype pyval =
    PyNone
  | PyStr string
  | PyBool bool
  | PyInt int
  | PyFloat pyfloat
  | PdNA

datatype py_exception =
    TypeError
  | ValueError
  | OverflowError
  | ScrapeError string

subsection \<open>Strings\<close>

text \<open>\<^verbatim>\<open>str.isspace\<close> on one character, for the code points below 256.\<close>

definition py_isspace :: "char \<Rightarrow> bool" where
  "py_isspace c =
     (let n = (of_char c :: nat)
      in (9 \<le> n \<and> n \<le> 13) \<or> (28 \<le> n \<and> n \<le> 32) \<or> n = 133 \<or> n = 160)"

text \<open>\<^verbatim>\<open>s.strip()\<close>\<close>

definition strip :: "string \<Rightarrow> string" where
  "strip s = rev (dropWhile py_isspace (rev (dropWhile py_isspace s)))"

text \<open>\<^verbatim>\<open>s.split(',')\<close>: the empty string splits into one empty piece.\<close>

fun split :: "char \<Rightarrow> string \<Rightarrow> string list" where
  "split sep [] = [[]]"
| "split sep (c # cs) =
     (if c = sep then [] # split sep cs
      else (case split sep cs of
              [] \<Rightarrow> [[c]]
            | w # ws \<Rightarrow> (c # w) # ws))"

text \<open>
  Decimal digits of a natural number and \<^verbatim>\<open>str\<close> of an \<^verbatim>\<open>int\<close>; \<open>digit_char\<close> is only
  applied to \<open>d < 10\<close>.
\<close>

definition digit_char :: "nat \<Rightarrow> char" where
  "digit_char d = ''0123456789'' ! d"

fun str_nat :: "nat \<Rightarrow> string" where
  "str_nat n = (if n < 10 then [digit_char n] else str_nat (n div 10) @ [digit_char (n mod 10)])"

declare str_nat.simps [simp del]

definition str_int :: "int \<Rightarrow> string" where
  "str_int i = (if i < 0 then CHR ''-'' # str_nat (nat (- i)) else str_nat (nat i))"

subsection \<open>The builtins \<^verbatim>\<open>str\<close>, \<^verbatim>\<open>bool\<close>, \<^verbatim>\<open>float\<close> and \<^verbatim>\<open>pandas.notna\<close>\<close>

text \<open>
  What the script calls and does not define. \<open>scrape_jobs\<close> is the external scraper: it
  takes the keyword arguments of the record \<open>scrape_params\<close> (the field \<open>location'\<close> is the
  keyword \<^verbatim>\<open>location\<close>) and raises, returns \<^verbatim>\<open>None\<close> or returns a table.
  \<open>now_isoformat i\<close> is the value of
  \<^verbatim>\<open>datetime.now().isoformat()\<close> at its \<open>i\<close>-th evaluation (one per row). \<open>float_repr\<close> is
  \<^verbatim>\<open>float.__repr__\<close> on a finite float and \<open>float_of_str\<close> is \<^verbatim>\<open>float\<close> on a string.
\<close>

record dataframe =
  columns :: "string list"
  rows :: "pyval list list"

record scrape_params =
  site_name :: "string list"
  search_term :: string
  location' :: string
  results_wanted :: int
  hours_old :: int
  country_indeed :: string

record env =
  scrape_jobs :: "scrape_params \<Rightarrow> py_exception + dataframe option"
  now_isoformat :: "nat \<Rightarrow> string"
  float_repr :: "rat \<Rightarrow> string"
  float_of_str :: "string \<Rightarrow> py_exception + pyfloat"

text \<open>\<^verbatim>\<open>pandas.notna\<close> on a scalar.\<close>

fun pd_notna :: "pyval \<Rightarrow> bool" where
  "pd_notna PyNone = False"
| "pd_notna (PyFloat NaN) = False"
| "pd_notna PdNA = False"
| "pd_notna _ = True"

text \<open>\<^verbatim>\<open>str(v)\<close>\<close>

fun py_str :: "env \<Rightarrow> pyval \<Rightarrow> string" where
  "py_str E PyNone = ''None''"
| "py_str E (PyStr s) = s"
| "py_str E (PyBool b) = (if b then ''True'' else ''False'')"
| "py_str E (PyInt i) = str_int i"
| "py_str E (PyFloat (Finite q)) = float_repr E q"
| "py_str E (PyFloat PosInf) = ''inf''"
| "py_str E (PyFloat NegInf) = ''-inf''"
| "py_str E (PyFloat NaN) = ''nan''"
| "py_str E PdNA = ''<NA>''"

text \<open>\<^verbatim>\<open>bool(v)\<close>: the truth value of \<^verbatim>\<open>pandas.NA\<close> is ambiguous and raises.\<close>

fun py_bool :: "pyval \<Rightarrow> py_exception + bool" where
  "py_bool PyNone = Inr False"
| "py_bool (PyStr s) = Inr (s \<noteq> [])"
| "py_bool (PyBool b) = Inr b"
| "py_bool (PyInt i) = Inr (i \<noteq> 0)"
| "py_bool (PyFloat (Finite q)) = Inr (q \<noteq> 0)"
| "py_bool (PyFloat _) = Inr True"
| "py_bool PdNA = Inl TypeError"

text \<open>
  \<^verbatim>\<open>float(i)\<close> on an \<^verbatim>\<open>int\<close>: exact below \<open>2 ^ 53\<close>, otherwise rounded to 53 significant bits,
  ties to even, and \<^verbatim>\<open>OverflowError\<close> when the rounded value does not fit a double.
\<close>

fun bit_length :: "nat \<Rightarrow> nat" where
  "bit_length n = (if n = 0 then 0 else Suc (bit_length (n div 2)))"

declare bit_length.simps [simp del]

definition float_of_int :: "int \<Rightarrow> py_exception + pyfloat" where
  "float_of_int i =
     (let a = nat \<bar>i\<bar>
      in if a < 2 ^ 53 then Inr (Finite (of_int i))
         else
           let e = bit_length a - 53;
               q = a div 2 ^ e;
               r = a mod 2 ^ e;
               q' = (if 2 * r > 2 ^ e \<or> (2 * r = 2 ^ e \<and> odd q) then q + 1 else q);
               v = q' * 2 ^ e
           in if v \<ge> 2 ^ 1024 then Inl OverflowError
              else Inr (Finite (of_int (sgn i * int v))))"

text \<open>\<^verbatim>\<open>float(v)\<close>\<close>

fun py_float :: "env \<Rightarrow> pyval \<Rightarrow> py_exception + pyfloat" where
  "py_float E PyNone = Inl TypeError"
| "py_float E (PyStr s) = float_of_str E s"
| "py_float E (PyBool b) = Inr (Finite (if b then 1 else 0))"
| "py_float E (PyInt i) = float_of_int i"
| "py_float E (PyFloat f) = Inr f"
| "py_float E PdNA = Inl TypeError"

subsection \<open>JSON values and \<^verbatim>\<open>json.dump\<close>\<close>

text \<open>
  What the script hands to \<^verbatim>\<open>json.dump\<close>: \<^verbatim>\<open>None\<close>, booleans, floats, strings, lists and
  dictionaries with string keys. A dictionary keeps its insertion order, so it is an
  association list.
\<close>

datatype json =
    JNull
  | JBool bool
  | JNumber pyfloat
  | JString string
  | JArray "json list"
  | JObject "(string \<times> json) list"

text \<open>A digit of \<^verbatim>\<open>'{0:04x}'.format(n)\<close>, for \<open>d < 16\<close>.\<close>

definition hex_digit :: "nat \<Rightarrow> char" where
  "hex_digit d = ''0123456789abcdef'' ! d"

text \<open>
  The replacement of one character inside a JSON string: the two-character escapes of
  \<^verbatim>\<open>ESCAPE_DCT\<close>, \<^verbatim>\<open>\u00XX\<close> for the other control characters and, under
  \<^verbatim>\<open>ensure_ascii\<close>, for everything outside the printable ASCII range.
\<close>

definition escape_char :: "bool \<Rightarrow> char \<Rightarrow> string" where
  "escape_char ensure_ascii c =
     (let n = (of_char c :: nat)
      in if n = 92 then [CHR 0x5C, CHR 0x5C]
         else if n = 34 then [CHR 0x5C, CHR 0x22]
         else if n = 8 then [CHR 0x5C, CHR ''b'']
         else if n = 12 then [CHR 0x5C, CHR ''f'']
         else if n = 10 then [CHR 0x5C, CHR ''n'']
         else if n = 13 then [CHR 0x5C, CHR ''r'']
         else if n = 9 then [CHR 0x5C, CHR ''t'']
         else if n < 32 \<or> (ensure_ascii \<and> 126 < n)
           then [CHR 0x5C, CHR ''u'', CHR ''0'', CHR ''0'', hex_digit (n div 16), hex_digit (n mod 16)]
         else [c])"

definition encode_basestring :: "bool \<Rightarrow> string \<Rightarrow> string" where
  "encode_basestring ensure_ascii s =
     CHR 0x22 # concat (map (escape_char ensure_ascii) s) @ [CHR 0x22]"

text \<open>\<^verbatim>\<open>floatstr\<close>: with the default \<^verbatim>\<open>allow_nan\<close> the special values are written as names.\<close>

fun floatstr :: "env \<Rightarrow> pyfloat \<Rightarrow> string" where
  "floatstr E (Finite q) = float_repr E q"
| "floatstr E PosInf = ''Infinity''"
| "floatstr E NegInf = ''-Infinity''"
| "floatstr E NaN = ''NaN''"

text \<open>
  \<^verbatim>\<open>'\n' + indent * level\<close> when an indent is given, nothing otherwise; the item separator
  is \<^verbatim>\<open>','\<close> with an indent and \<^verbatim>\<open>', '\<close> without.
\<close>

definition newline_indent :: "nat option \<Rightarrow> nat \<Rightarrow> string" where
  "newline_indent indent level =
     (case indent of None \<Rightarrow> [] | Some n \<Rightarrow> CHR 0x0A # replicate (n * level) CHR '' '')"

definition item_separator :: "nat option \<Rightarrow> string" where
  "item_separator indent = (case indent of None \<Rightarrow> '', '' | Some n \<Rightarrow> '','')"

fun join :: "string \<Rightarrow> string list \<Rightarrow> string" where
  "join sep [] = []"
| "join sep [x] = x"
| "join sep (x # y # ys) = x @ sep @ join sep (y # ys)"

fun iterencode :: "env \<Rightarrow> nat option \<Rightarrow> bool \<Rightarrow> nat \<Rightarrow> json \<Rightarrow> string" where
  "iterencode E indent ensure_ascii level JNull = ''null''"
| "iterencode E indent ensure_ascii level (JBool b) = (if b then ''true'' else ''false'')"
| "iterencode E indent ensure_ascii level (JNumber f) = floatstr E f"
| "iterencode E indent ensure_ascii level (JString s) = encode_basestring ensure_ascii s"
| "iterencode E indent ensure_ascii level (JArray xs) =
     (if xs = [] then ''[]''
      else ''['' @ newline_indent indent (Suc level)
           @ join (item_separator indent @ newline_indent indent (Suc level))
                  (map (iterencode E indent ensure_ascii (Suc level)) xs)
           @ newline_indent indent level @ '']'')"
| "iterencode E indent ensure_ascii level (JObject kvs) =
     (if kvs = [] then ''{}''
      else ''{'' @ newline_indent indent (Suc level)
           @ join (item_separator indent @ newline_indent indent (Suc level))
                  (map (\<lambda>kv. encode_basestring ensure_ascii (fst kv) @ '': ''
                              @ iterencode E indent ensure_ascii (Suc level) (snd kv)) kvs)
           @ newline_indent indent level @ ''}'')"

text \<open>\<^verbatim>\<open>json.dump(obj, f, indent=..., ensure_ascii=...)\<close>: the text written to \<^verbatim>\<open>f\<close>.\<close>

definition json_dump :: "env \<Rightarrow> nat option \<Rightarrow> bool \<Rightarrow> json \<Rightarrow> string" where
  "json_dump E indent ensure_ascii obj = iterencode E indent ensure_ascii 0 obj"

subsection \<open>Rows of the table\<close>

text \<open>
  \<^verbatim>\<open>df.iterrows()\<close> yields the rows in order, each labelled by the columns of the table;
  \<^verbatim>\<open>row.get(key, default)\<close> is the cell under \<open>key\<close>, or \<open>default\<close> when the table has no
  such column. \<^verbatim>\<open>df.empty\<close> holds when the table has no row or no column. A row holds
  the cells as the table has them, which is what \<^verbatim>\<open>iterrows\<close> yields for a table with a
  column of strings (the rows then have the dtype \<^verbatim>\<open>object\<close>).
\<close>

type_synonym row = "(string \<times> pyval) list"

definition iterrows :: "dataframe \<Rightarrow> row list" where
  "iterrows df = map (\<lambda>r. zip (columns df) r) (rows df)"

definition empty :: "dataframe \<Rightarrow> bool" where
  "empty df = (rows df = [] \<or> columns df = [])"

definition get :: "row \<Rightarrow> string \<Rightarrow> pyval \<Rightarrow> pyval" where
  "get r key dflt = (case map_of r key of Some v \<Rightarrow> v | None \<Rightarrow> dflt)"

subsection \<open>The command line\<close>

text \<open>The namespace returned by \<^verbatim>\<open>parser.parse_args()\<close>.\<close>

record args =
  query :: string
  location :: string
  sites :: string
  max_jobs :: int
  job_type :: "string option"
  experience_level :: "string option"
  "output" :: string

subsection \<open>\<^verbatim>\<open>main\<close>\<close>

text \<open>The keyword arguments of the call of \<^verbatim>\<open>scrape_jobs\<close> (lines 33 to 43).\<close>

definition scrape_call :: "args \<Rightarrow> scrape_params" where
  "scrape_call a =
     \<lparr> site_name = map strip (split CHR '','' (sites a)),
       search_term = query a,
       location' = location a,
       results_wanted = max_jobs a,
       hours_old = 168,
       country_indeed = ''USA'' \<rparr>"

text \<open>
  A field of the form \<^verbatim>\<open>str(row.get(k, '')) if pd.notna(row.get(k)) else None\<close>, and the
  same with a default string in the place of \<^verbatim>\<open>None\<close> (lines 73 and 74).
\<close>

definition str_if_notna :: "env \<Rightarrow> row \<Rightarrow> string \<Rightarrow> json" where
  "str_if_notna E r k =
     (if pd_notna (get r k PyNone) then JString (py_str E (get r k (PyStr []))) else JNull)"

definition str_or_default :: "env \<Rightarrow> row \<Rightarrow> string \<Rightarrow> string \<Rightarrow> json" where
  "str_or_default E r k d =
     (if pd_notna (get r k PyNone) then JString (py_str E (get r k (PyStr d))) else JString d)"

text \<open>\<^verbatim>\<open>float(row.get(k)) if pd.notna(row.get(k)) else None\<close> (lines 71 and 72).\<close>

definition float_if_notna :: "env \<Rightarrow> row \<Rightarrow> string \<Rightarrow> py_exception + json" where
  "float_if_notna E r k =
     (if pd_notna (get r k PyNone)
      then (case py_float E (get r k PyNone) of Inl e \<Rightarrow> Inl e | Inr f \<Rightarrow> Inr (JNumber f))
      else Inr JNull)"

text \<open>
  The dictionary literal of lines 49 to 66; \<open>i\<close> is the number of the row, for the clock.
  Only \<^verbatim>\<open>bool(...)\<close> can raise in it.
\<close>

definition job_data :: "env \<Rightarrow> nat \<Rightarrow> row \<Rightarrow> py_exception + (string \<times> json) list" where
  "job_data E i r =
     (case py_bool (get r ''is_remote'' (PyBool False)) of
        Inl e \<Rightarrow> Inl e
      | Inr is_remote \<Rightarrow> Inr
          [ (''title'', JString (py_str E (get r ''title'' (PyStr [])))),
            (''company'', JString (py_str E (get r ''company'' (PyStr [])))),
            (''company_url'', str_if_notna E r ''company_url''),
            (''job_url'', JString (py_str E (get r ''job_url'' (PyStr [])))),
            (''location'', JString (py_str E (get r ''location'' (PyStr [])))),
            (''city'', str_if_notna E r ''city''),
            (''state'', str_if_notna E r ''state''),
            (''country'', str_if_notna E r ''country''),
            (''is_remote'', JBool is_remote),
            (''job_type'', str_if_notna E r ''job_type''),
            (''date_posted'',
               JString (py_str E (get r ''date_posted'' (PyStr (now_isoformat E i))))),
            (''description'', JString (take 5000 (py_str E (get r ''description'' (PyStr []))))),
            (''site'', JString (py_str E (get r ''site'' (PyStr ''unknown'')))),
            (''job_level'', str_if_notna E r ''job_level''),
            (''company_industry'', str_if_notna E r ''company_industry''),
            (''salary_source'', str_if_notna E r ''salary_source'') ])"

text \<open>The compensation dictionary of lines 70 to 75.\<close>

definition compensation :: "env \<Rightarrow> row \<Rightarrow> py_exception + json" where
  "compensation E r =
     (case float_if_notna E r ''min_amount'' of
        Inl e \<Rightarrow> Inl e
      | Inr mn \<Rightarrow>
          (case float_if_notna E r ''max_amount'' of
             Inl e \<Rightarrow> Inl e
           | Inr mx \<Rightarrow> Inr (JObject
               [ (''min_amount'', mn),
                 (''max_amount'', mx),
                 (''interval'', str_or_default E r ''interval'' ''yearly''),
                 (''currency'', str_or_default E r ''currency'' ''USD'') ])))"

text \<open>The body of the loop (lines 49 to 75): the dictionary that is appended for one row.\<close>

definition transform_row :: "env \<Rightarrow> nat \<Rightarrow> row \<Rightarrow> py_exception + json" where
  "transform_row E i r =
     (case job_data E i r of
        Inl e \<Rightarrow> Inl e
      | Inr jd \<Rightarrow>
          if pd_notna (get r ''min_amount'' PyNone) \<or> pd_notna (get r ''max_amount'' PyNone)
          then (case compensation E r of
                  Inl e \<Rightarrow> Inl e
                | Inr c \<Rightarrow> Inr (JObject (jd @ [(''compensation'', c)])))
          else Inr (JObject jd))"

text \<open>
  The loop of lines 48 to 77: \<open>jobs_data\<close> is the list built so far, and the first row that
  raises ends the loop.
\<close>

fun for_rows :: "env \<Rightarrow> nat \<Rightarrow> json list \<Rightarrow> row list \<Rightarrow> py_exception + json list" where
  "for_rows E i jobs_data [] = Inr jobs_data"
| "for_rows E i jobs_data (r # rest) =
     (case transform_row E i r of
        Inl e \<Rightarrow> Inl e
      | Inr jd \<Rightarrow> for_rows E (Suc i) (jobs_data @ [jd]) rest)"

text \<open>
  The file system, and \<^verbatim>\<open>with open(path, 'w', encoding='utf-8') as f: json.dump(...)\<close>.
\<close>

type_synonym filesystem = "string \<rightharpoonup> string"

definition write_json ::
  "env \<Rightarrow> string \<Rightarrow> nat option \<Rightarrow> bool \<Rightarrow> json \<Rightarrow> filesystem \<Rightarrow> filesystem" where
  "write_json E path indent ensure_ascii obj fs =
     fs(path \<mapsto> json_dump E indent ensure_ascii obj)"

text \<open>The \<^verbatim>\<open>try\<close> block of \<^verbatim>\<open>main\<close> (lines 30 to 89): the exception raised, or the files left.\<close>

definition main_try :: "env \<Rightarrow> args \<Rightarrow> filesystem \<Rightarrow> py_exception + filesystem" where
  "main_try E a fs =
     (case scrape_jobs E (scrape_call a) of
        Inl e \<Rightarrow> Inl e
      | Inr jobs_df \<Rightarrow>
          (case jobs_df of
             None \<Rightarrow> Inr (write_json E (output a) None True (JArray []) fs)
           | Some df \<Rightarrow>
               if \<not> empty df
               then (case for_rows E 0 [] (iterrows df) of
                       Inl e \<Rightarrow> Inl e
                     | Inr jobs_data \<Rightarrow>
                         Inr (write_json E (output a) (Some 2) False (JArray jobs_data) fs))
               else Inr (write_json E (output a) None True (JArray []) fs)))"

text \<open>
  \<^verbatim>\<open>main\<close> with its handler (lines 91 to 96): the files left and the exit status of the
  process, \<open>0\<close> when the \<^verbatim>\<open>try\<close> block completes and \<open>1\<close> from \<^verbatim>\<open>sys.exit(1)\<close>.
\<close>

definition main :: "env \<Rightarrow> args \<Rightarrow> filesystem \<Rightarrow> filesystem \<times> nat" where
  "main E a fs =
     (case main_try E a fs of
        Inr fs' \<Rightarrow> (fs', 0)
      | Inl e \<Rightarrow> (write_json E (output a) None True (JArray []) fs, 1))"

subsection \<open>Reading a listing\<close>

text \<open>\<^verbatim>\<open>d.get(k)\<close> on a dumped dictionary, and on the result of a row that may have raised.\<close>

definition lookup :: "json \<Rightarrow> string \<Rightarrow> json option" where
  "lookup j k = (case j of JObject kvs \<Rightarrow> map_of kvs k | _ \<Rightarrow> None)"

definition field_of :: "py_exception + json \<Rightarrow> string \<Rightarrow> json option" where
  "field_of res k = (case res of Inl e \<Rightarrow> None | Inr j \<Rightarrow> lookup j k)"


definition unguarded_fields :: "string list" where
  "unguarded_fields =
     [''title'', ''company'', ''job_url'', ''location'', ''date_posted'', ''description'',
      ''site'']"

subsection \<open>JSON texts\<close>

text \<open>
  The grammar of RFC 8259, on which the claims about a valid JSON file are stated:
  whitespace, numbers, strings, and values with the elements of an array counted.
  \<open>json_text s\<close> says that \<open>s\<close> is a JSON text, and \<open>json_array_text n s\<close> that it is an array
  of \<open>n\<close> elements.
\<close>

definition ws :: "char \<Rightarrow> bool" where
  "ws c = (c \<in> set [CHR 0x20, CHR 0x09, CHR 0x0A, CHR 0x0D])"

definition digit :: "char \<Rightarrow> bool" where
  "digit c = (c \<in> set ''0123456789'')"

definition hexdig :: "char \<Rightarrow> bool" where
  "hexdig c = (c \<in> set ''0123456789abcdefABCDEF'')"

definition unescaped :: "char \<Rightarrow> bool" where
  "unescaped c = (let n = (of_char c :: nat) in 32 \<le> n \<and> n \<noteq> 34 \<and> n \<noteq> 92)"

inductive json_int :: "string \<Rightarrow> bool" where
  zero: "json_int ''0''"
| nonzero: "d \<in> set ''123456789'' \<Longrightarrow> list_all digit ds \<Longrightarrow> json_int (d # ds)"

inductive json_frac :: "string \<Rightarrow> bool" where
  no_frac: "json_frac []"
| frac: "ds \<noteq> [] \<Longrightarrow> list_all digit ds \<Longrightarrow> json_frac (CHR ''.'' # ds)"

inductive json_exp :: "string \<Rightarrow> bool" where
  no_exp: "json_exp []"
| exp: "e \<in> set ''eE'' \<Longrightarrow> sg \<in> set [[], ''+'', ''-''] \<Longrightarrow> ds \<noteq> [] \<Longrightarrow> list_all digit ds \<Longrightarrow>
        json_exp (e # sg @ ds)"

inductive json_number :: "string \<Rightarrow> bool" where
  number: "m \<in> set [[], ''-''] \<Longrightarrow> json_int i \<Longrightarrow> json_frac f \<Longrightarrow> json_exp e \<Longrightarrow>
           json_number (m @ i @ f @ e)"

inductive json_chars :: "string \<Rightarrow> bool" where
  no_chars: "json_chars []"
| plain: "unescaped c \<Longrightarrow> json_chars s \<Longrightarrow> json_chars (c # s)"
| escape: "c \<in> set [CHR 0x22, CHR 0x5C, CHR ''/'', CHR ''b'', CHR ''f'', CHR ''n'', CHR ''r'', CHR ''t''] \<Longrightarrow>
           json_chars s \<Longrightarrow> json_chars (CHR 0x5C # c # s)"
| unicode: "hexdig a \<Longrightarrow> hexdig b \<Longrightarrow> hexdig c \<Longrightarrow> hexdig d \<Longrightarrow> json_chars s \<Longrightarrow>
            json_chars (CHR 0x5C # CHR ''u'' # a # b # c # d # s)"

inductive json_value :: "string \<Rightarrow> bool"
  and json_elements :: "nat \<Rightarrow> string \<Rightarrow> bool"
  and json_members :: "string \<Rightarrow> bool" where
  null: "json_value ''null''"
| true: "json_value ''true''"
| false: "json_value ''false''"
| num: "json_number s \<Longrightarrow> json_value s"
| str: "json_chars s \<Longrightarrow> json_value (CHR 0x22 # s @ [CHR 0x22])"
| empty_array: "list_all ws w \<Longrightarrow> json_value (CHR ''['' # w @ '']'')"
| array: "json_elements n es \<Longrightarrow> json_value (CHR ''['' # es @ '']'')"
| empty_object: "list_all ws w \<Longrightarrow> json_value (CHR ''{'' # w @ ''}'')"
| object: "json_members ms \<Longrightarrow> json_value (CHR ''{'' # ms @ ''}'')"
| element: "list_all ws a \<Longrightarrow> json_value v \<Longrightarrow> list_all ws b \<Longrightarrow> json_elements 1 (a @ v @ b)"
| elements: "list_all ws a \<Longrightarrow> json_value v \<Longrightarrow> list_all ws b \<Longrightarrow> json_elements n es \<Longrightarrow>
             json_elements (Suc n) (a @ v @ b @ CHR '','' # es)"
| member: "list_all ws a \<Longrightarrow> json_chars k \<Longrightarrow> list_all ws b \<Longrightarrow> list_all ws c \<Longrightarrow>
           json_value v \<Longrightarrow> list_all ws d \<Longrightarrow>
           json_members (a @ CHR 0x22 # k @ CHR 0x22 # b @ CHR '':'' # c @ v @ d)"
| members: "list_all ws a \<Longrightarrow> json_chars k \<Longrightarrow> list_all ws b \<Longrightarrow> list_all ws c \<Longrightarrow>
            json_value v \<Longrightarrow> list_all ws d \<Longrightarrow> json_members ms \<Longrightarrow>
            json_members (a @ CHR 0x22 # k @ CHR 0x22 # b @ CHR '':'' # c @ v @ d @ CHR '','' # ms)"

definition json_text :: "string \<Rightarrow> bool" where
  "json_text s = (\<exists>a v b. s = a @ v @ b \<and> list_all ws a \<and> json_value v \<and> list_all ws b)"

definition json_array_text :: "nat \<Rightarrow> string \<Rightarrow> bool" where
  "json_array_text n s =
     (\<exists>a body b. s = a @ CHR ''['' # body @ CHR '']'' # b \<and> list_all ws a \<and> list_all ws b \<and>
        (if n = 0 then list_all ws body else json_elements n body))"



text \<open>
  A text with its string literals removed. In a JSON text only the characters of
  \<open>bare_chars\<close> occur outside string literals.
\<close>

fun bare :: "string \<Rightarrow> string" and in_string :: "string \<Rightarrow> string" where
  "bare [] = []"
| "bare (c # s) = (if c = CHR 0x22 then in_string s else c # bare s)"
| "in_string [] = []"
| "in_string [c] = []"
| "in_string (c # d # s) =
     (if c = CHR 0x22 then bare (d # s)
      else if c = CHR 0x5C then in_string s
      else in_string (d # s))"

definition bare_chars :: "char set" where
  "bare_chars = set ''[]{},:+-.eE0123456789nulltruefalse'' \<union> {c. ws c}"

definition separable :: "string \<Rightarrow> bool" where
  "separable s = ((\<forall>rest. bare (s @ rest) = bare s @ bare rest) \<and> set (bare s) \<subseteq> bare_chars)"

subsection \<open>Example data\<close>

text \<open>
  The row of the scenario in the specification, a table that holds it, and an environment
  whose scraper returns that table. The examples convert no string to a float and print
  only floats whose value is an integer below \<open>10 ^ 16\<close>, where \<^verbatim>\<open>repr\<close> is the decimal
  numeral followed by \<^verbatim>\<open>.0\<close>.
\<close>

definition example_df :: dataframe where
  "example_df =
     \<lparr> columns = [''title'', ''company'', ''min_amount'', ''max_amount''],
       rows = [[PyStr ''Engineer'', PyStr ''Acme'', PyInt 80000, PyInt 120000]] \<rparr>"

definition example_row :: row where
  "example_row =
     [(''title'', PyStr ''Engineer''), (''company'', PyStr ''Acme''),
      (''min_amount'', PyInt 80000), (''max_amount'', PyInt 120000)]"

definition example_env :: env where
  "example_env =
     \<lparr> scrape_jobs = (\<lambda>p. Inr (Some example_df)),
       now_isoformat = (\<lambda>i. ''2024-05-01T12:00:00''),
       float_repr = (\<lambda>q. str_int \<lfloor>q\<rfloor> @ ''.0''),
       float_of_str = (\<lambda>s. Inl ValueError) \<rparr>"

definition example_args :: args where
  "example_args =
     \<lparr> query = ''engineer'', location = ''Berlin'', sites = ''linkedin, indeed'',
       max_jobs = 50, job_type = None, experience_level = None,
       output = ''jobs.json'' \<rparr>"

definition example_listing :: json where
  "example_listing = JObject
     [ (''title'', JString ''Engineer''),
       (''company'', JString ''Acme''),
       (''company_url'', JNull),
       (''job_url'', JString []),
       (''location'', JString []),
       (''city'', JNull),
       (''state'', JNull),
       (''country'', JNull),
       (''is_remote'', JBool False),
       (''job_type'', JNull),
       (''date_posted'', JString ''2024-05-01T12:00:00''),
       (''description'', JString []),
       (''site'', JString ''unknown''),
       (''job_level'', JNull),
       (''company_industry'', JNull),
       (''salary_source'', JNull),
       (''compensation'', JObject
          [ (''min_amount'', JNumber (Finite 80000)),
            (''max_amount'', JNumber (Finite 120000)),
            (''interval'', JString ''yearly''),
            (''currency'', JString ''USD'') ]) ]"

text \<open>A row with a description of 6000 characters.\<close>

definition long_row :: row where
  "long_row = [(''title'', PyStr ''Engineer''), (''description'', PyStr (replicate 6000 CHR ''x''))]"

text \<open>
  A row as the scraper leaves it when it knows neither the title nor whether the job is
  remote: both cells hold the float \<^verbatim>\<open>nan\<close>.
\<close>

definition nan_row :: row where
  "nan_row = [(''title'', PyFloat NaN), (''company'', PyStr ''Acme''), (''is_remote'', PyFloat NaN)]"



text \<open>Environments whose scraper raises, returns \<^verbatim>\<open>None\<close>, and returns a table without rows.\<close>

definition failing_env :: env where
  "failing_env = example_env \<lparr> scrape_jobs := (\<lambda>p. Inl (ScrapeError ''connection refused'')) \<rparr>"

definition none_env :: env where
  "none_env = example_env \<lparr> scrape_jobs := (\<lambda>p. Inr None) \<rparr>"

text \<open>A table whose only row has an infinite \<^verbatim>\<open>min_amount\<close>, its environment and its listing.\<close>

definition inf_df :: dataframe where
  "inf_df = \<lparr> columns = [''title'', ''min_amount''], rows = [[PyStr ''Engineer'', PyFloat PosInf]] \<rparr>"

definition inf_env :: env where
  "inf_env = example_env \<lparr> scrape_jobs := (\<lambda>p. Inr (Some inf_df)) \<rparr>"

definition inf_listing :: json where
  "inf_listing = JObject
     [ (''title'', JString ''Engineer''),
       (''company'', JString []),
       (''company_url'', JNull),
       (''job_url'', JString []),
       (''location'', JString []),
       (''city'', JNull),
       (''state'', JNull),
       (''country'', JNull),
       (''is_remote'', JBool False),
       (''job_type'', JNull),
       (''date_posted'', JString ''2024-05-01T12:00:00''),
       (''description'', JString []),
       (''site'', JString ''unknown''),
       (''job_level'', JNull),
       (''company_industry'', JNull),
       (''salary_source'', JNull),
       (''compensation'', JObject
          [ (''min_amount'', JNumber PosInf),
            (''max_amount'', JNull),
            (''interval'', JString ''yearly''),
            (''currency'', JString ''USD'') ]) ]"

section \<open>Properties\<close>

subsection \<open>Auxiliary facts\<close>

lemma json_dump_empty_array: "json_dump E indent ensure_ascii (JArray []) = ''[]''"
  by (simp add: json_dump_def)

lemma get_notna_default: "pd_notna (get r k PyNone) \<Longrightarrow> get r k d = get r k PyNone"
  by (auto simp: get_def split: option.splits)


lemma str_or_default_eq:
  "str_or_default E r k d =
     (if pd_notna (get r k PyNone) then JString (py_str E (get r k PyNone)) else JString d)"
  by (simp add: str_or_default_def get_notna_default [of r k "PyStr d"])

lemma float_if_notna_Inr:
  "float_if_notna E r k = Inr x \<Longrightarrow>
     (if pd_notna (get r k PyNone)
      then \<exists>f. py_float E (get r k PyNone) = Inr f \<and> x = JNumber f
      else x = JNull)"
  by (auto simp: float_if_notna_def split: if_splits sum.splits)

lemma example_row_listing: "transform_row example_env 0 example_row = Inr example_listing"
  by (simp add: transform_row_def job_data_def compensation_def float_if_notna_def
      str_if_notna_def str_or_default_def get_def example_row_def example_env_def
      example_listing_def float_of_int_def)

lemma long_row_transforms: "\<exists>j. transform_row example_env 0 long_row = Inr j"
  by (simp add: transform_row_def job_data_def long_row_def get_def)

lemma job_data_keys:
  "job_data E i r = Inr jd \<Longrightarrow> map fst jd =
     [''title'', ''company'', ''company_url'', ''job_url'', ''location'', ''city'', ''state'',
      ''country'', ''is_remote'', ''job_type'', ''date_posted'', ''description'', ''site'',
      ''job_level'', ''company_industry'', ''salary_source'']"
  by (auto simp: job_data_def split: sum.splits)

text \<open>A row that does not raise went through one of the two branches of line 69.\<close>

lemma transform_row_cases:
  assumes "transform_row E i r = Inr j"
  obtains jd where "job_data E i r = Inr jd"
      "\<not> (pd_notna (get r ''min_amount'' PyNone) \<or> pd_notna (get r ''max_amount'' PyNone))"
      "j = JObject jd"
  | jd c where "job_data E i r = Inr jd"
      "pd_notna (get r ''min_amount'' PyNone) \<or> pd_notna (get r ''max_amount'' PyNone)"
      "compensation E r = Inr c" "j = JObject (jd @ [(''compensation'', c)])"
  using assms unfolding transform_row_def
  by (auto split: sum.splits if_splits)

lemma lookup_job_data:
  assumes "transform_row E i r = Inr j" "job_data E i r = Inr jd" "k \<noteq> ''compensation''"
  shows "lookup j k = map_of jd k"
  using assms(1)
proof (cases rule: transform_row_cases)
  case (1 jd')
  then show ?thesis using assms by (simp add: lookup_def)
next
  case (2 jd' c)
  then show ?thesis using assms by (simp add: lookup_def map_add_def split: option.splits)
qed

lemma transform_row_job_data:
  assumes "transform_row E i r = Inr j"
  obtains jd where "job_data E i r = Inr jd"
  using assms by (auto simp: transform_row_def split: sum.splits)

text \<open>
  The loop returns a list exactly when no row raises, and then it has appended the
  dictionary of every row, in the order of the rows.
\<close>

lemma for_rows_Inr:
  "for_rows E i acc rs = Inr out \<longleftrightarrow>
     (\<exists>js. out = acc @ js \<and> length js = length rs \<and>
           (\<forall>k<length rs. transform_row E (i + k) (rs ! k) = Inr (js ! k)))"
proof (induction rs arbitrary: i acc)
  case Nil
  then show ?case by auto
next
  case (Cons r rest)
  show ?case
  proof (cases "transform_row E i r")
    case (Inl e)
    then show ?thesis by (auto dest: spec [of _ 0])
  next
    case (Inr jd)
    have "for_rows E i acc (r # rest) = Inr out \<longleftrightarrow>
          (\<exists>js. out = (acc @ [jd]) @ js \<and> length js = length rest \<and>
                (\<forall>k<length rest. transform_row E (Suc i + k) (rest ! k) = Inr (js ! k)))"
      using Inr Cons.IH [of "Suc i" "acc @ [jd]"] by simp
    also have "\<dots> \<longleftrightarrow>
          (\<exists>js. out = acc @ js \<and> length js = length (r # rest) \<and>
                (\<forall>k<length (r # rest). transform_row E (i + k) ((r # rest) ! k) = Inr (js ! k)))"
      (is "?L \<longleftrightarrow> ?R")
    proof
      assume ?L
      then obtain js where js: "out = (acc @ [jd]) @ js" "length js = length rest"
        "\<forall>k<length rest. transform_row E (Suc i + k) (rest ! k) = Inr (js ! k)" by blast
      have "\<forall>k<length (r # rest). transform_row E (i + k) ((r # rest) ! k) = Inr ((jd # js) ! k)"
      proof (intro allI impI)
        fix k assume "k < length (r # rest)"
        then show "transform_row E (i + k) ((r # rest) ! k) = Inr ((jd # js) ! k)"
          using Inr js(3) by (cases k) auto
      qed
      with js(1,2) show ?R by (intro exI [of _ "jd # js"]) simp
    next
      assume ?R
      then obtain js where js: "out = acc @ js" "length js = length (r # rest)"
        "\<forall>k<length (r # rest). transform_row E (i + k) ((r # rest) ! k) = Inr (js ! k)" by blast
      from js(2) obtain j0 js' where split: "js = j0 # js'" by (cases js) auto
      from js(3) have "transform_row E i r = Inr (js ! 0)" by (auto dest: spec [of _ 0])
      with Inr split have j0: "j0 = jd" by simp
      have "\<forall>k<length rest. transform_row E (Suc i + k) (rest ! k) = Inr (js' ! k)"
      proof (intro allI impI)
        fix k assume "k < length rest"
        then show "transform_row E (Suc i + k) (rest ! k) = Inr (js' ! k)"
          using js(3) split by (auto dest: spec [of _ "Suc k"])
      qed
      with js(1,2) split j0 show ?L by (intro exI [of _ js']) simp
    qed
    finally show ?thesis .
  qed
qed

lemma for_rows_Inl:
  assumes "k < length rs" "transform_row E (i + k) (rs ! k) = Inl e"
  shows "\<exists>e'. for_rows E i acc rs = Inl e'"
proof (cases "for_rows E i acc rs")
  case (Inl e')
  then show ?thesis by blast
next
  case (Inr out)
  then have "\<exists>j. transform_row E (i + k) (rs ! k) = Inr j"
    using assms(1) unfolding for_rows_Inr by blast
  with assms(2) show ?thesis by simp
qed




lemma nan_row_listing:
  "transform_row example_env 0 nan_row = Inr (JObject
     [ (''title'', JString ''nan''),
       (''company'', JString ''Acme''),
       (''company_url'', JNull),
       (''job_url'', JString []),
       (''location'', JString []),
       (''city'', JNull),
       (''state'', JNull),
       (''country'', JNull),
       (''is_remote'', JBool True),
       (''job_type'', JNull),
       (''date_posted'', JString ''2024-05-01T12:00:00''),
       (''description'', JString []),
       (''site'', JString ''unknown''),
       (''job_level'', JNull),
       (''company_industry'', JNull),
       (''salary_source'', JNull) ])"
  by (simp add: transform_row_def job_data_def str_if_notna_def get_def nan_row_def
      example_env_def)

text \<open>The value under \<^verbatim>\<open>is_remote\<close> is \<^verbatim>\<open>bool\<close> of the cell, or of \<^verbatim>\<open>False\<close> without the column.\<close>

lemma is_remote_coerced:
  assumes "transform_row E i r = Inr j"
  shows "\<exists>b. py_bool (get r ''is_remote'' (PyBool False)) = Inr b \<and>
             lookup j ''is_remote'' = Some (JBool b)"
proof -
  obtain jd where jd: "job_data E i r = Inr jd"
    using assms by (rule transform_row_job_data)
  have "lookup j ''is_remote'' = map_of jd ''is_remote''"
    using assms jd by (rule lookup_job_data) simp
  then show ?thesis
    using jd by (auto simp: job_data_def split: sum.splits)
qed

text \<open>The fields that are passed to \<^verbatim>\<open>str\<close> directly are strings in every listing.\<close>

lemma unguarded_field_is_string:
  assumes "transform_row E i r = Inr j" and "k \<in> set unguarded_fields"
  shows "\<exists>s. lookup j k = Some (JString s)"
proof -
  obtain jd where jd: "job_data E i r = Inr jd"
    using assms(1) by (rule transform_row_job_data)
  from assms(2) have "k \<noteq> ''compensation''"
    by (auto simp: unguarded_fields_def)
  with assms(1) jd have "lookup j k = map_of jd k"
    by (rule lookup_job_data)
  moreover have "\<exists>s. map_of jd k = Some (JString s)"
    using jd assms(2) by (auto simp: job_data_def unguarded_fields_def split: sum.splits)
  ultimately show ?thesis by simp
qed

lemma main_raised: "main_try E a fs = Inl e \<Longrightarrow> main E a fs = (fs(output a \<mapsto> ''[]''), 1)"
  by (simp add: main_def write_json_def json_dump_empty_array)

lemma main_try_scrape_raised:
  "scrape_jobs E (scrape_call a) = Inl e \<Longrightarrow> main_try E a fs = Inl e"
  by (simp add: main_try_def)

lemma main_try_row_raised:
  assumes "scrape_jobs E (scrape_call a) = Inr (Some df)" "\<not> empty df"
    and "k < length (iterrows df)" "transform_row E k (iterrows df ! k) = Inl e"
  shows "\<exists>e'. main_try E a fs = Inl e'"
proof -
  obtain e' where "for_rows E 0 [] (iterrows df) = Inl e'"
    using for_rows_Inl [of k "iterrows df" E 0 e "[]"] assms(3,4) by auto
  then show ?thesis using assms(1,2) by (simp add: main_try_def)
qed

subsection \<open>What \<^verbatim>\<open>json.dump\<close> writes is a JSON text\<close>

















subsection \<open>Listings have finite numbers when the amounts are finite\<close>








subsection \<open>Characters outside string literals\<close>

lemma in_string_Cons:
  "in_string (c # s) =
     (if c = CHR 0x22 then bare s else if c = CHR 0x5C then in_string (tl s) else in_string s)"
  by (cases s) simp_all

lemma hexdig_plain: "hexdig c \<Longrightarrow> c \<noteq> CHR 0x22 \<and> c \<noteq> CHR 0x5C"
  by (auto simp: hexdig_def)

lemma in_string_chars: "json_chars s \<Longrightarrow> in_string (s @ CHR 0x22 # rest) = bare rest"
proof (induction rule: json_chars.induct)
  case no_chars
  show ?case by (simp add: in_string_Cons)
next
  case (plain c s)
  then show ?case by (auto simp: in_string_Cons unescaped_def)
next
  case (escape c s)
  then show ?case by (simp add: in_string_Cons)
next
  case (unicode a b c d s)
  then show ?case
    using hexdig_plain [of a] hexdig_plain [of b] hexdig_plain [of c] hexdig_plain [of d]
    by (simp add: in_string_Cons)
qed

lemma bare_plain: "CHR 0x22 \<notin> set s \<Longrightarrow> bare (s @ rest) = s @ bare rest"
  by (induction s) auto

lemma separable_plain: "CHR 0x22 \<notin> set s \<Longrightarrow> set s \<subseteq> bare_chars \<Longrightarrow> separable s"
  using bare_plain [of s] bare_plain [of s "[]"] by (simp add: separable_def)

lemma separable_append:
  assumes "separable s" "separable t"
  shows "separable (s @ t)"
proof -
  have s: "\<And>rest. bare (s @ rest) = bare s @ bare rest" and t: "\<And>rest. bare (t @ rest) = bare t @ bare rest"
    using assms by (simp_all add: separable_def)
  have st: "bare (s @ t) = bare s @ bare t"
    using s [of t] .
  have "\<And>rest. bare ((s @ t) @ rest) = bare (s @ t) @ bare rest"
    using s [of "t @ rest" for rest] t st by simp
  moreover have "set (bare (s @ t)) \<subseteq> bare_chars"
    using assms st by (simp add: separable_def)
  ultimately show ?thesis
    unfolding separable_def by blast
qed

lemma ws_bare_chars: "ws c \<Longrightarrow> c \<in> bare_chars"
  by (simp add: bare_chars_def)

lemma ws_not_quote: "ws c \<Longrightarrow> c \<noteq> CHR 0x22"
  by (auto simp: ws_def)

lemma separable_ws: "list_all ws w \<Longrightarrow> separable w"
proof (rule separable_plain)
  assume "list_all ws w"
  then show "CHR 0x22 \<notin> set w" using ws_not_quote by (auto simp: list_all_iff)
next
  assume "list_all ws w"
  then show "set w \<subseteq> bare_chars" using ws_bare_chars by (auto simp: list_all_iff)
qed

lemma separable_string: "json_chars k \<Longrightarrow> separable (CHR 0x22 # k @ [CHR 0x22])"
proof -
  assume k: "json_chars k"
  have "\<And>rest. bare ((CHR 0x22 # k @ [CHR 0x22]) @ rest) = bare rest"
    using in_string_chars [OF k] by simp
  moreover have "bare (CHR 0x22 # k @ [CHR 0x22]) = []"
    using in_string_chars [OF k, of "[]"] by simp
  ultimately show ?thesis by (simp add: separable_def)
qed

lemma separable_Cons:
  assumes "c \<noteq> CHR 0x22" "c \<in> bare_chars" "separable s"
  shows "separable (c # s)"
proof -
  have "separable [c]" using assms(1,2) by (intro separable_plain) simp_all
  then have "separable ([c] @ s)" using assms(3) by (rule separable_append)
  then show ?thesis by simp
qed

lemma separable_Nil: "separable []"
  by (simp add: separable_def)

lemma digit_plain: "digit c \<Longrightarrow> c \<noteq> CHR 0x22 \<and> c \<in> bare_chars"
  by (auto simp: digit_def bare_chars_def)

lemma separable_digits: "list_all digit ds \<Longrightarrow> separable ds"
  by (induction ds) (auto intro: separable_Nil separable_Cons dest: digit_plain)

lemma separable_int: "json_int i \<Longrightarrow> separable i"
proof (induction rule: json_int.induct)
  case zero
  show ?case by (intro separable_Cons separable_Nil) (simp_all add: bare_chars_def)
next
  case (nonzero d ds)
  from nonzero(1) have "digit d" by (auto simp: digit_def)
  then show ?case using nonzero(2) by (auto intro: separable_Cons separable_digits dest: digit_plain)
qed

lemma separable_frac: "json_frac f \<Longrightarrow> separable f"
proof (induction rule: json_frac.induct)
  case no_frac
  show ?case by (rule separable_Nil)
next
  case (frac ds)
  then show ?case by (intro separable_Cons separable_digits) (simp_all add: bare_chars_def)
qed

lemma separable_exp: "json_exp e \<Longrightarrow> separable e"
proof (induction rule: json_exp.induct)
  case no_exp
  show ?case by (rule separable_Nil)
next
  case (exp e sg ds)
  have "separable sg"
    using exp(2) by (auto intro!: separable_Cons separable_Nil simp: bare_chars_def)
  then have "separable (sg @ ds)"
    using separable_digits [OF exp(4)] by (rule separable_append)
  moreover have "e \<noteq> CHR 0x22" "e \<in> bare_chars"
    using exp(1) by (auto simp: bare_chars_def)
  ultimately show ?case by (intro separable_Cons)
qed

lemma separable_number: "json_number s \<Longrightarrow> separable s"
proof (induction rule: json_number.induct)
  case (number m i f e)
  have "separable m"
    using number(1) by (auto intro!: separable_Cons separable_Nil simp: bare_chars_def)
  then show ?case
    using separable_int [OF number(2)] separable_frac [OF number(3)] separable_exp [OF number(4)]
    by (simp add: separable_append)
qed

lemma separable_literal: "separable ''null''" "separable ''true''" "separable ''false''"
  by (rule separable_plain; simp add: bare_chars_def)+

lemma bracket_plain:
  "c \<in> set ''[]{},:'' \<Longrightarrow> c \<noteq> CHR 0x22 \<and> c \<in> bare_chars"
  by (auto simp: bare_chars_def)

lemma separable_wrap:
  assumes "l \<in> set ''[]{},:''" "r \<in> set ''[]{},:''" "separable s"
  shows "separable (l # s @ [r])"
proof -
  have "separable [r]"
    using bracket_plain [OF assms(2)] by (intro separable_Cons separable_Nil) simp_all
  with assms(3) have "separable (s @ [r])" by (rule separable_append)
  then show ?thesis
    using bracket_plain [OF assms(1)] by (intro separable_Cons) simp_all
qed

lemma separable_element:
  assumes "list_all ws a" "separable v" "list_all ws b"
  shows "separable (a @ v @ b)"
  using assms by (simp add: separable_append separable_ws)

lemma separable_comma: "separable s \<Longrightarrow> separable (CHR '','' # s)"
  by (rule separable_Cons) (simp_all add: bare_chars_def)

lemma separable_member:
  assumes "list_all ws a" "json_chars k" "list_all ws b" "list_all ws c" "separable v"
    "list_all ws d" "separable t"
  shows "separable (a @ CHR 0x22 # k @ CHR 0x22 # b @ CHR '':'' # c @ v @ d @ t)"
proof -
  have "separable (c @ v @ d @ t)"
    using assms(4-7) by (simp add: separable_append separable_ws)
  then have "separable (CHR '':'' # c @ v @ d @ t)"
    by (rule separable_Cons [rotated 2]) (simp_all add: bare_chars_def)
  then have "separable (b @ CHR '':'' # c @ v @ d @ t)"
    using assms(3) by (simp add: separable_append separable_ws)
  then have "separable ((CHR 0x22 # k @ [CHR 0x22]) @ b @ CHR '':'' # c @ v @ d @ t)"
    using separable_string [OF assms(2)] by (rule separable_append [rotated])
  then have "separable (a @ (CHR 0x22 # k @ [CHR 0x22]) @ b @ CHR '':'' # c @ v @ d @ t)"
    using separable_ws [OF assms(1)] by (rule separable_append [rotated])
  then show ?thesis by simp
qed

lemma separable_json:
  "json_value v \<Longrightarrow> separable v"
  "json_elements n es \<Longrightarrow> separable es"
  "json_members ms \<Longrightarrow> separable ms"
proof (induction rule: json_value_json_elements_json_members.inducts)
  case null
  show ?case by (rule separable_literal)
next
  case true
  show ?case by (rule separable_literal)
next
  case false
  show ?case by (rule separable_literal)
next
  case (num s)
  then show ?case by (rule separable_number)
next
  case (str s)
  then show ?case by (rule separable_string)
next
  case (empty_array w)
  then show ?case using separable_wrap [of "CHR ''[''" "CHR '']''" w] by (simp add: separable_ws)
next
  case (array n es)
  then show ?case using separable_wrap [of "CHR ''[''" "CHR '']''" es] by simp
next
  case (empty_object w)
  then show ?case using separable_wrap [of "CHR ''{''" "CHR ''}''" w] by (simp add: separable_ws)
next
  case (object ms)
  then show ?case using separable_wrap [of "CHR ''{''" "CHR ''}''" ms] by simp
next
  case (element a v b)
  then show ?case by (simp add: separable_element)
next
  case (elements a v b n es)
  have "separable (a @ v @ b)" using elements by (simp add: separable_element)
  moreover have "separable (CHR '','' # es)"
    using elements by (simp add: separable_comma)
  ultimately have "separable ((a @ v @ b) @ CHR '','' # es)"
    by (rule separable_append)
  then show ?case by simp
next
  case (member a k b c v d)
  then show ?case using separable_member [of a k b c v d "[]"] by (simp add: separable_Nil)
next
  case (members a k b c v d ms)
  then show ?case using separable_member [of a k b c v d "CHR '','' # ms"]
    by (simp add: separable_comma)
qed

lemma json_text_bare: "json_text s \<Longrightarrow> set (bare s) \<subseteq> bare_chars"
proof -
  assume "json_text s"
  then obtain a v b where "s = a @ v @ b" "list_all ws a" "json_value v" "list_all ws b"
    unfolding json_text_def by blast
  then have "separable s"
    using separable_json(1) [of v] by (simp add: separable_element)
  then show ?thesis by (simp add: separable_def)
qed

text \<open>
  With an infinite amount the file is not a JSON text: \<^verbatim>\<open>json.dump\<close> writes the name
  \<^verbatim>\<open>Infinity\<close>, and no JSON text has the letter \<^verbatim>\<open>I\<close> outside a string literal.
\<close>

lemma inf_row_listing: "for_rows inf_env 0 [] (iterrows inf_df) = Inr [inf_listing]"
  by (simp add: iterrows_def inf_df_def transform_row_def job_data_def compensation_def
      float_if_notna_def str_if_notna_def str_or_default_def get_def inf_env_def example_env_def
      inf_listing_def)

lemma inf_bare:
  "CHR ''I'' \<in> set (bare (json_dump inf_env (Some 2) False (JArray [inf_listing])))"
  by (simp add: json_dump_def inf_listing_def newline_indent_def item_separator_def
      encode_basestring_def escape_char_def eval_nat_numeral)

lemma not_bare_I: "CHR ''I'' \<notin> bare_chars"
  by (simp add: bare_chars_def ws_def)

lemma inf_not_json: "\<not> json_text (json_dump inf_env (Some 2) False (JArray [inf_listing]))"
  using json_text_bare inf_bare not_bare_I by blast


text \<open>The run on the table with the infinite amount: status 0, and a file that is no JSON text.\<close>

lemma infinite_amount_not_json:
  "main inf_env example_args Map.empty =
     ([''jobs.json'' \<mapsto> json_dump inf_env (Some 2) False (JArray [inf_listing])], 0) \<and>
   \<not> json_text (json_dump inf_env (Some 2) False (JArray [inf_listing]))"
proof -
  have "scrape_jobs inf_env (scrape_call example_args) = Inr (Some inf_df)"
    by (simp add: inf_env_def)
  moreover have "\<not> empty inf_df"
    by (simp add: empty_def inf_df_def)
  ultimately have "main_try inf_env example_args Map.empty =
      Inr [''jobs.json'' \<mapsto> json_dump inf_env (Some 2) False (JArray [inf_listing])]"
    using inf_row_listing by (simp add: main_try_def write_json_def example_args_def)
  then show ?thesis
    using inf_not_json by (simp add: main_def)
qed

lemma json_array_text_json_text: "json_array_text n s \<Longrightarrow> json_text s"
proof -
  assume "json_array_text n s"
  then obtain a body b where s: "s = a @ CHR ''['' # body @ CHR '']'' # b"
      "list_all ws a" "list_all ws b"
      "if n = 0 then list_all ws body else json_elements n body"
    unfolding json_array_text_def by blast
  have "json_value (CHR ''['' # body @ '']'')"
    using s(4) by (auto intro: json_value_json_elements_json_members.empty_array
        json_value_json_elements_json_members.array split: if_splits)
  then show ?thesis
    unfolding json_text_def using s(1-3)
    by (intro exI [of _ a] exI [of _ "CHR ''['' # body @ '']''"] exI [of _ b]) simp
qed

subsection \<open>The handler\<close>

text \<open>
  C1. Whenever the scraper raises, or the transformation of some row of a table that is
  not empty raises, \<^verbatim>\<open>main\<close> leaves the text \<^verbatim>\<open>[]\<close> in the output file and the process
  exits with status 1.
\<close>

theorem exception_writes_empty_array:
  assumes "scrape_jobs E (scrape_call a) = Inl e \<or>
           (\<exists>df k. scrape_jobs E (scrape_call a) = Inr (Some df) \<and> \<not> empty df \<and>
                   k < length (iterrows df) \<and> transform_row E k (iterrows df ! k) = Inl e)"
  shows "main E a fs = (fs(output a \<mapsto> ''[]''), 1)"
proof -
  from assms have "\<exists>e'. main_try E a fs = Inl e'"
  proof
    assume "scrape_jobs E (scrape_call a) = Inl e"
    then show ?thesis by (auto dest: main_try_scrape_raised)
  next
    assume "\<exists>df k. scrape_jobs E (scrape_call a) = Inr (Some df) \<and> \<not> empty df \<and>
                   k < length (iterrows df) \<and> transform_row E k (iterrows df ! k) = Inl e"
    then show ?thesis by (auto dest: main_try_row_raised)
  qed
  then show ?thesis by (auto dest: main_raised)
qed

theorem exception_writes_empty_array_witness:
  "scrape_jobs failing_env (scrape_call example_args) = Inl (ScrapeError ''connection refused'') \<and>
   main failing_env example_args Map.empty = ([''jobs.json'' \<mapsto> ''[]''], 1)"
proof -
  have h: "scrape_jobs failing_env (scrape_call example_args) = Inl (ScrapeError ''connection refused'')"
    by (simp add: failing_env_def)
  show ?thesis
    using h exception_writes_empty_array [of failing_env example_args
        "ScrapeError ''connection refused''" Map.empty, OF disjI1, OF h]
    by (simp add: example_args_def)
qed

subsection \<open>No jobs found\<close>

text \<open>
  C4. Whenever the scraper returns \<^verbatim>\<open>None\<close> or a table without rows, the output file
  holds exactly the text \<^verbatim>\<open>[]\<close> and the process exits with status 0.
\<close>

theorem no_jobs_writes_empty_array:
  assumes "scrape_jobs E (scrape_call a) = Inr None \<or>
           (\<exists>df. scrape_jobs E (scrape_call a) = Inr (Some df) \<and> rows df = [])"
  shows "main E a fs = (fs(output a \<mapsto> ''[]''), 0)"
  using assms
  by (auto simp: main_def main_try_def empty_def write_json_def json_dump_empty_array)

theorem no_jobs_writes_empty_array_witness:
  "scrape_jobs none_env (scrape_call example_args) = Inr None \<and>
   main none_env example_args Map.empty = ([''jobs.json'' \<mapsto> ''[]''], 0)"
proof -
  have h: "scrape_jobs none_env (scrape_call example_args) = Inr None"
    by (simp add: none_env_def)
  show ?thesis
    using h no_jobs_writes_empty_array [of none_env example_args Map.empty, OF disjI1, OF h]
    by (simp add: example_args_def)
qed

subsection \<open>Flags that are not forwarded\<close>

text \<open>
  C9. Two invocations that differ only in \<^verbatim>\<open>--experience-level\<close> pass the same keyword
  arguments to \<^verbatim>\<open>scrape_jobs\<close>.
\<close>

theorem experience_level_not_forwarded:
  "scrape_call (a\<lparr>experience_level := x\<rparr>) = scrape_call a"
  by (simp add: scrape_call_def)

text \<open>
  C10. Two invocations that differ only in \<^verbatim>\<open>--job-type\<close> pass the same keyword arguments
  to \<^verbatim>\<open>scrape_jobs\<close>, and in the same environment they leave the same files and exit
  with the same status.
\<close>

theorem job_type_has_no_effect:
  "scrape_call (a\<lparr>job_type := x\<rparr>) = scrape_call a \<and>
   main E (a\<lparr>job_type := x\<rparr>) fs = main E a fs"
  by (simp add: scrape_call_def main_def main_try_def split: sum.splits option.splits)

subsection \<open>The compensation key\<close>

text \<open>
  C2. The dictionary of a row has the key \<^verbatim>\<open>compensation\<close> if and only if
  \<^verbatim>\<open>min_amount\<close> or \<^verbatim>\<open>max_amount\<close> is not missing in the row.
\<close>

theorem compensation_key_iff:
  assumes "transform_row E i r = Inr j"
  shows "lookup j ''compensation'' \<noteq> None \<longleftrightarrow>
         pd_notna (get r ''min_amount'' PyNone) \<or> pd_notna (get r ''max_amount'' PyNone)"
  using assms
proof (cases rule: transform_row_cases)
  case (1 jd)
  have "''compensation'' \<notin> set (map fst jd)"
    using job_data_keys [OF 1(1)] by simp
  then have "map_of jd ''compensation'' = None"
    by (simp add: map_of_eq_None_iff)
  with 1 show ?thesis by (simp add: lookup_def)
next
  case (2 jd c)
  then show ?thesis by (simp add: lookup_def)
qed

theorem compensation_key_iff_witness:
  "transform_row example_env 0 example_row = Inr example_listing \<and>
   lookup example_listing ''compensation'' \<noteq> None \<and>
   pd_notna (get example_row ''min_amount'' PyNone)"
proof -
  have h: "transform_row example_env 0 example_row = Inr example_listing"
    by (rule example_row_listing)
  have "pd_notna (get example_row ''min_amount'' PyNone)"
    by (simp add: example_row_def get_def)
  then show ?thesis
    using h compensation_key_iff [OF h] by simp
qed

subsection \<open>The compensation dictionary\<close>

text \<open>
  C6. When \<^verbatim>\<open>min_amount\<close> or \<^verbatim>\<open>max_amount\<close> is not missing, the dictionary under
  \<^verbatim>\<open>compensation\<close> has the four keys \<^verbatim>\<open>min_amount\<close>, \<^verbatim>\<open>max_amount\<close>, \<^verbatim>\<open>interval\<close>
  and \<^verbatim>\<open>currency\<close>; each amount is the \<^verbatim>\<open>float\<close> of the cell, or null when the cell is
  missing; \<^verbatim>\<open>interval\<close> and \<^verbatim>\<open>currency\<close> are the \<^verbatim>\<open>str\<close> of the cell, or \<^verbatim>\<open>"yearly"\<close>
  and \<^verbatim>\<open>"USD"\<close> when the column is absent or the cell is missing.
\<close>

theorem compensation_fields:
  assumes "transform_row E i r = Inr j"
    and "pd_notna (get r ''min_amount'' PyNone) \<or> pd_notna (get r ''max_amount'' PyNone)"
  shows "\<exists>mn mx iv cu.
     lookup j ''compensation'' =
       Some (JObject [(''min_amount'', mn), (''max_amount'', mx),
                      (''interval'', iv), (''currency'', cu)]) \<and>
     (if pd_notna (get r ''min_amount'' PyNone)
      then \<exists>f. py_float E (get r ''min_amount'' PyNone) = Inr f \<and> mn = JNumber f
      else mn = JNull) \<and>
     (if pd_notna (get r ''max_amount'' PyNone)
      then \<exists>f. py_float E (get r ''max_amount'' PyNone) = Inr f \<and> mx = JNumber f
      else mx = JNull) \<and>
     iv = (if pd_notna (get r ''interval'' PyNone)
           then JString (py_str E (get r ''interval'' PyNone)) else JString ''yearly'') \<and>
     cu = (if pd_notna (get r ''currency'' PyNone)
           then JString (py_str E (get r ''currency'' PyNone)) else JString ''USD'')"
  using assms(1)
proof (cases rule: transform_row_cases)
  case (1 jd)
  with assms(2) show ?thesis by simp
next
  case (2 jd c)
  have "''compensation'' \<notin> set (map fst jd)"
    using job_data_keys [OF 2(1)] by simp
  then have "map_of jd ''compensation'' = None"
    by (simp add: map_of_eq_None_iff)
  then have look: "lookup j ''compensation'' = Some c"
    using 2(4) by (simp add: lookup_def map_add_def)
  obtain mn mx where
    mn: "float_if_notna E r ''min_amount'' = Inr mn" and
    mx: "float_if_notna E r ''max_amount'' = Inr mx" and
    c: "c = JObject [(''min_amount'', mn), (''max_amount'', mx),
                    (''interval'', str_or_default E r ''interval'' ''yearly''),
                    (''currency'', str_or_default E r ''currency'' ''USD'')]"
    using 2(3) by (auto simp: compensation_def split: sum.splits)
  show ?thesis
    using look c float_if_notna_Inr [OF mn] float_if_notna_Inr [OF mx]
    by (simp add: str_or_default_eq)
qed

theorem compensation_fields_witness:
  "transform_row example_env 0 example_row = Inr example_listing \<and>
   pd_notna (get example_row ''min_amount'' PyNone) \<and>
   lookup example_listing ''compensation'' =
     Some (JObject [(''min_amount'', JNumber (Finite 80000)),
                    (''max_amount'', JNumber (Finite 120000)),
                    (''interval'', JString ''yearly''), (''currency'', JString ''USD'')])"
proof -
  have h: "transform_row example_env 0 example_row = Inr example_listing"
    by (rule example_row_listing)
  have n: "pd_notna (get example_row ''min_amount'' PyNone)"
    by (simp add: example_row_def get_def)
  show ?thesis
    using h n compensation_fields [OF h disjI1, OF n]
    by (simp add: example_listing_def lookup_def)
qed

subsection \<open>The description\<close>

text \<open>
  C7. The description of a listing is the \<^verbatim>\<open>str\<close> of the cell cut after 5000 characters:
  it has at most 5000 characters, and when the cell holds a string it is the first 5000
  characters of that string and nothing else.
\<close>

theorem description_truncated:
  assumes "transform_row E i r = Inr j"
  shows "\<exists>d. lookup j ''description'' = Some (JString d) \<and>
             length d \<le> 5000 \<and>
             d = take 5000 (py_str E (get r ''description'' (PyStr []))) \<and>
             (\<forall>s. map_of r ''description'' = Some (PyStr s) \<longrightarrow> d = take 5000 s)"
proof -
  obtain jd where jd: "job_data E i r = Inr jd"
    using assms by (rule transform_row_job_data)
  have "lookup j ''description'' = map_of jd ''description''"
    using assms jd by (rule lookup_job_data) simp
  also have "\<dots> = Some (JString (take 5000 (py_str E (get r ''description'' (PyStr [])))))"
    using jd by (auto simp: job_data_def split: sum.splits)
  finally show ?thesis by (auto simp: get_def)
qed

theorem description_truncated_witness:
  "field_of (transform_row example_env 0 long_row) ''description'' =
     Some (JString (replicate 5000 CHR ''x''))"
proof -
  obtain j where h: "transform_row example_env 0 long_row = Inr j"
    using long_row_transforms by blast
  have "map_of long_row ''description'' = Some (PyStr (replicate 6000 CHR ''x''))"
    by (simp add: long_row_def)
  then show ?thesis
    using h description_truncated [OF h] by (auto simp: field_of_def)
qed

subsection \<open>Missing values in string fields\<close>




subsection \<open>The remote flag\<close>

text \<open>
  C8. The flag is \<^verbatim>\<open>bool\<close> of the cell (\<open>is_remote_coerced\<close>), but it is not false for every
  missing cell: for a cell that holds \<^verbatim>\<open>nan\<close> the listing says \<^verbatim>\<open>true\<close>.
\<close>

theorem is_remote_true_for_nan:
  "\<not> pd_notna (get nan_row ''is_remote'' PyNone) \<and>
   field_of (transform_row example_env 0 nan_row) ''is_remote'' = Some (JBool True)"
  by (simp add: nan_row_listing field_of_def lookup_def) (simp add: nan_row_def get_def)

subsection \<open>The dumped array\<close>




end
